theory Spec2Isabelle
  imports Main "HOL-Library.Word"
begin

unbundle bit_operations_syntax

section \<open>Machine types and platform constants\<close>

text \<open>
  The module \<^verbatim>\<open>src/misc/tap.c\<close> is a set of wrappers around \<^verbatim>\<open>ioctl\<close> and
  \<^verbatim>\<open>socket\<close>. C's \<^verbatim>\<open>unsigned char\<close>, \<^verbatim>\<open>unsigned short\<close> / \<^verbatim>\<open>short\<close> and
  \<^verbatim>\<open>unsigned int\<close> / \<^verbatim>\<open>int\<close> objects are words of 8, 16 and 32 bits. File
  descriptors, return codes and \<^verbatim>\<open>errno\<close> values are never computed with, so they
  are plain integers.
\<close>

type_synonym u8 = "8 word"
type_synonym u16 = "16 word"
type_synonym u32 = "32 word"

text \<open>
  Modelled from the spec: the system headers \<^verbatim>\<open><net/if.h>\<close>, \<^verbatim>\<open><linux/if_tun.h>\<close>,
  \<^verbatim>\<open><linux/if_ether.h>\<close> and \<^verbatim>\<open><linux/in.h>\<close> that declare the constants below are
  not part of the repository. The spec gives the name-length limit ("commonly 16 bytes
  including terminator") and the 6-byte link-layer address; the flag bits, the address
  family and the socket parameters carry the values of the Linux headers. No proof below
  depends on the numeric value of a flag bit.
\<close>

definition IFNAMSIZ :: nat where "IFNAMSIZ = 16"
definition ETH_ALEN :: nat where "ETH_ALEN = 6"
definition IFF_UP :: u16 where "IFF_UP = 0x1"
definition IFF_RUNNING :: u16 where "IFF_RUNNING = 0x40"
definition IFF_TAP :: u16 where "IFF_TAP = 0x0002"
definition IFF_NO_PI :: u16 where "IFF_NO_PI = 0x1000"
definition AF_INET :: u16 where "AF_INET = 2"
definition PF_INET :: int where "PF_INET = 2"
definition SOCK_DGRAM :: int where "SOCK_DGRAM = 2"
definition IPPROTO_IP :: int where "IPPROTO_IP = 0"

section \<open>Bytes in memory\<close>

text \<open>
  An object in memory is the list of its bytes. Multi-byte integers are stored least
  significant byte first (the little-endian hosts Linux TAP devices usually run on);
  \<open>of_le\<close> reads such a list back.
\<close>

definition le16 :: "u16 \<Rightarrow> u8 list" where
  "le16 v = [ucast v, ucast (drop_bit 8 v)]"

definition le32 :: "u32 \<Rightarrow> u8 list" where
  "le32 v = [ucast v, ucast (drop_bit 8 v), ucast (drop_bit 16 v), ucast (drop_bit 24 v)]"

fun of_le :: "u8 list \<Rightarrow> 'a::len word" where
  "of_le [] = 0"
| "of_le (b # bs) = ucast b OR push_bit 8 (of_le bs)"

definition load :: "nat \<Rightarrow> nat \<Rightarrow> u8 list \<Rightarrow> u8 list" where
  "load off n mem = take n (drop off mem)"

definition store :: "nat \<Rightarrow> u8 list \<Rightarrow> u8 list \<Rightarrow> u8 list" where
  "store off v mem = take off mem @ v @ drop (off + length v) mem"

section \<open>C library routines\<close>

definition NUL :: char where "NUL = CHR 0x00"

text \<open>
  A \<^verbatim>\<open>const char *\<close> argument is the list of characters found at the pointer; the C
  string it denotes ends before the first NUL (or at the end of the list, where the
  terminator is implied).
\<close>

definition c_str :: "string \<Rightarrow> string" where
  "c_str s = takeWhile (\<lambda>c. c \<noteq> NUL) s"

text \<open>
  \<^verbatim>\<open>strncpy(dst, src, n)\<close> writes exactly \<open>n\<close> characters at \<open>dst\<close>: the first \<open>n\<close>
  characters of the string \<open>src\<close>, then NUL padding when the string is shorter than
  \<open>n\<close>. No terminator is written when the string has \<open>n\<close> characters or more.
  \<^verbatim>\<open>memcpy(dst, src, n)\<close> writes the first \<open>n\<close> bytes of \<open>src\<close>. The rest of the
  destination keeps its contents.
\<close>

definition strncpy :: "string \<Rightarrow> string \<Rightarrow> nat \<Rightarrow> string" where
  "strncpy dst src n =
     (let s = take n (c_str src)
      in s @ replicate (n - length s) NUL @ drop n dst)"

definition memcpy :: "u8 list \<Rightarrow> u8 list \<Rightarrow> nat \<Rightarrow> u8 list" where
  "memcpy dst src n = take n src @ drop n dst"

section \<open>The request record \<^verbatim>\<open>struct ifreq\<close>\<close>

text \<open>
  Modelled from the spec: \<^verbatim>\<open>struct ifreq\<close> (the spec's Interface Configuration Record:
  the interface name together with one configuration field) is declared in the system
  header \<^verbatim>\<open><net/if.h>\<close>, not in the repository. It is a name of \<open>IFNAMSIZ\<close> characters
  followed by a union; all members of the union start at its first byte. The members
  the module uses are \<^verbatim>\<open>ifr_flags\<close> (a \<^verbatim>\<open>short\<close>), \<^verbatim>\<open>ifr_mtu\<close> (an \<^verbatim>\<open>int\<close>) and
  \<^verbatim>\<open>ifr_addr\<close>, \<^verbatim>\<open>ifr_netmask\<close>, \<^verbatim>\<open>ifr_hwaddr\<close> (each a \<^verbatim>\<open>struct sockaddr\<close>: a 16-bit
  family, then \<^verbatim>\<open>sa_data[14]\<close>). The module views \<^verbatim>\<open>ifr_addr\<close> and \<^verbatim>\<open>ifr_netmask\<close> as
  a \<^verbatim>\<open>struct sockaddr_in\<close>: \<^verbatim>\<open>sin_family\<close> at offset 0, \<^verbatim>\<open>sin_port\<close> at 2,
  \<^verbatim>\<open>sin_addr.s_addr\<close> at 4. The union is 24 bytes long on 64-bit Linux.
\<close>

record ifreq =
  ifr_name :: string
  ifr_ifru :: "u8 list"

definition IFRU_SIZE :: nat where "IFRU_SIZE = 24"


text \<open>\<^verbatim>\<open>bzero(&ifr, sizeof(ifr))\<close>: every byte of the record becomes 0.\<close>

definition bzero_ifreq :: "ifreq \<Rightarrow> ifreq" where
  "bzero_ifreq ifr = ifr\<lparr>ifr_name := replicate IFNAMSIZ NUL, ifr_ifru := replicate IFRU_SIZE 0\<rparr>"

definition ifr_flags :: "ifreq \<Rightarrow> u16" where
  "ifr_flags ifr = of_le (load 0 2 (ifr_ifru ifr))"

definition set_ifr_flags :: "u16 \<Rightarrow> ifreq \<Rightarrow> ifreq" where
  "set_ifr_flags v ifr = ifr\<lparr>ifr_ifru := store 0 (le16 v) (ifr_ifru ifr)\<rparr>"

definition ifr_mtu :: "ifreq \<Rightarrow> u32" where
  "ifr_mtu ifr = of_le (load 0 4 (ifr_ifru ifr))"

definition set_ifr_mtu :: "u32 \<Rightarrow> ifreq \<Rightarrow> ifreq" where
  "set_ifr_mtu v ifr = ifr\<lparr>ifr_ifru := store 0 (le32 v) (ifr_ifru ifr)\<rparr>"

definition sin_family :: "ifreq \<Rightarrow> u16" where
  "sin_family ifr = of_le (load 0 2 (ifr_ifru ifr))"

definition set_sin_family :: "u16 \<Rightarrow> ifreq \<Rightarrow> ifreq" where
  "set_sin_family v ifr = ifr\<lparr>ifr_ifru := store 0 (le16 v) (ifr_ifru ifr)\<rparr>"

definition sin_addr :: "ifreq \<Rightarrow> u32" where
  "sin_addr ifr = of_le (load 4 4 (ifr_ifru ifr))"

definition set_sin_addr :: "u32 \<Rightarrow> ifreq \<Rightarrow> ifreq" where
  "set_sin_addr v ifr = ifr\<lparr>ifr_ifru := store 4 (le32 v) (ifr_ifru ifr)\<rparr>"

definition sa_data :: "ifreq \<Rightarrow> u8 list" where
  "sa_data ifr = load 2 14 (ifr_ifru ifr)"

section \<open>The boundary to the operating system\<close>

text \<open>
  The module reaches the operating system through \<^verbatim>\<open>ioctl\<close> (with an integer argument
  for \<^verbatim>\<open>TUNSETPERSIST\<close>, with a pointer to a \<^verbatim>\<open>struct ifreq\<close> otherwise) and \<^verbatim>\<open>socket\<close>.
  The operating system is a parameter of the model: any function from its own state and
  a call to an answer and a new state. An answer is the value the call returns, the value
  \<^verbatim>\<open>errno\<close> holds when it returns, and the contents of the request record when it
  returns (of no meaning for a call that takes no record).
\<close>

datatype ioctl_req =
    TUNSETPERSIST | TUNSETIFF | TUNGETIFF
  | SIOCGIFMTU | SIOCSIFMTU | SIOCSIFADDR | SIOCGIFADDR | SIOCSIFNETMASK
  | SIOCGIFFLAGS | SIOCSIFFLAGS | SIOCGIFHWADDR

datatype syscall =
    Ioctl_int int ioctl_req int
  | Ioctl_ifreq int ioctl_req ifreq
  | Socket int int int

record sysret =
  ret :: int
  err :: int
  out :: ifreq

type_synonym 'k os = "'k \<Rightarrow> syscall \<Rightarrow> sysret \<times> 'k"

text \<open>
  The state a call of the module runs in: the state of the operating system, the value
  of \<^verbatim>\<open>errno\<close>, the indeterminate bytes that an uninitialised local
  \<^verbatim>\<open>struct ifreq ifr\<close> holds on entry, and the log of the calls made to the operating
  system so far, each with its answer.
\<close>

record 'k world =
  kern :: 'k
  errno :: int
  stack :: ifreq
  trace :: "(syscall \<times> sysret) list"

definition do_syscall :: "'k os \<Rightarrow> 'k world \<Rightarrow> syscall \<Rightarrow> sysret \<times> 'k world" where
  "do_syscall os w c =
     (case os (kern w) c of
        (r, k') \<Rightarrow> (r, w\<lparr>kern := k', errno := err r, trace := trace w @ [(c, r)]\<rparr>))"

definition ioctl_int :: "'k os \<Rightarrow> 'k world \<Rightarrow> int \<Rightarrow> ioctl_req \<Rightarrow> int \<Rightarrow> int \<times> 'k world" where
  "ioctl_int os w fd req v =
     (case do_syscall os w (Ioctl_int fd req v) of (r, w') \<Rightarrow> (ret r, w'))"

definition ioctl_ifreq ::
  "'k os \<Rightarrow> 'k world \<Rightarrow> int \<Rightarrow> ioctl_req \<Rightarrow> ifreq \<Rightarrow> int \<times> ifreq \<times> 'k world" where
  "ioctl_ifreq os w fd req ifr =
     (case do_syscall os w (Ioctl_ifreq fd req ifr) of (r, w') \<Rightarrow> (ret r, out r, w'))"

definition socket :: "'k os \<Rightarrow> 'k world \<Rightarrow> int \<Rightarrow> int \<Rightarrow> int \<Rightarrow> int \<times> 'k world" where
  "socket os w domain type protocol =
     (case do_syscall os w (Socket domain type protocol) of (r, w') \<Rightarrow> (ret r, w'))"

text \<open>The calls an operation made: what it appended to the log.\<close>

definition issued :: "'k world \<Rightarrow> 'k world \<Rightarrow> (syscall \<times> sysret) list" where
  "issued w w' = drop (length (trace w)) (trace w')"

section \<open>The operations of \<^verbatim>\<open>tap.c\<close>\<close>

text \<open>
  Each operation takes the operating system and the state, then the arguments of the C
  function in their order; an output pointer is passed as the current contents of the
  object it points to and returned as its contents afterwards. The result starts with the
  C function's return value and ends with the state.
\<close>

definition setpersist_tap :: "'k os \<Rightarrow> 'k world \<Rightarrow> int \<Rightarrow> int \<times> 'k world" where
  "setpersist_tap os w fd =
     (let (rc, w) = ioctl_int os w fd TUNSETPERSIST 1
      in if rc < 0 then (errno w, w) else (0, w))"

definition getmtu_tap ::
  "'k os \<Rightarrow> 'k world \<Rightarrow> int \<Rightarrow> string \<Rightarrow> u32 \<Rightarrow> int \<times> u32 \<times> 'k world" where
  "getmtu_tap os w skfd name mtu =
     (let ifr = stack w;
          ifr = bzero_ifreq ifr;
          ifr = ifr\<lparr>ifr_name := strncpy (ifr_name ifr) name IFNAMSIZ\<rparr>;
          (rc, ifr, w) = ioctl_ifreq os w skfd SIOCGIFMTU ifr
      in if rc < 0 then (errno w, mtu, w) else (0, ifr_mtu ifr, w))"

definition setipaddr_tap ::
  "'k os \<Rightarrow> 'k world \<Rightarrow> int \<Rightarrow> string \<Rightarrow> u32 \<Rightarrow> int \<times> 'k world" where
  "setipaddr_tap os w skfd name ipaddr =
     (let ifr = stack w;
          ifr = bzero_ifreq ifr;
          ifr = ifr\<lparr>ifr_name := strncpy (ifr_name ifr) name IFNAMSIZ\<rparr>;
          ifr = set_sin_family AF_INET ifr;
          ifr = set_sin_addr ipaddr ifr;
          (rc, ifr, w) = ioctl_ifreq os w skfd SIOCSIFADDR ifr
      in if rc < 0 then (errno w, w) else (0, w))"

definition getipaddr_tap ::
  "'k os \<Rightarrow> 'k world \<Rightarrow> int \<Rightarrow> string \<Rightarrow> u32 \<Rightarrow> int \<times> u32 \<times> 'k world" where
  "getipaddr_tap os w skfd name ipaddr =
     (let ifr = stack w;
          ifr = bzero_ifreq ifr;
          ifr = ifr\<lparr>ifr_name := strncpy (ifr_name ifr) name IFNAMSIZ\<rparr>;
          (rc, ifr, w) = ioctl_ifreq os w skfd SIOCGIFADDR ifr
      in if rc < 0 then (errno w, ipaddr, w) else (0, sin_addr ifr, w))"

definition setnetmask_tap ::
  "'k os \<Rightarrow> 'k world \<Rightarrow> int \<Rightarrow> string \<Rightarrow> u32 \<Rightarrow> int \<times> 'k world" where
  "setnetmask_tap os w skfd name netmask =
     (let ifr = stack w;
          ifr = bzero_ifreq ifr;
          ifr = ifr\<lparr>ifr_name := strncpy (ifr_name ifr) name IFNAMSIZ\<rparr>;
          ifr = set_sin_family AF_INET ifr;
          ifr = set_sin_addr netmask ifr;
          (rc, ifr, w) = ioctl_ifreq os w skfd SIOCSIFNETMASK ifr
      in if rc < 0 then (errno w, w) else (0, w))"

text \<open>
  In \<^verbatim>\<open>ifr.ifr_flags |= flags\<close> and \<^verbatim>\<open>ifr.ifr_flags &= ~flags & 0xffff\<close> both operands
  are promoted to \<^verbatim>\<open>int\<close> (the \<^verbatim>\<open>short\<close> with its sign, the \<^verbatim>\<open>unsigned short\<close>
  without) and the result is converted back to \<^verbatim>\<open>short\<close>.
\<close>

definition setflags_tap ::
  "'k os \<Rightarrow> 'k world \<Rightarrow> int \<Rightarrow> string \<Rightarrow> u16 \<Rightarrow> int \<Rightarrow> int \<times> 'k world" where
  "setflags_tap os w skfd name flags set' =
     (let ifr = stack w;
          ifr = bzero_ifreq ifr;
          ifr = ifr\<lparr>ifr_name := strncpy (ifr_name ifr) name IFNAMSIZ\<rparr>;
          (rc, ifr, w) = ioctl_ifreq os w skfd SIOCGIFFLAGS ifr
      in if rc < 0 then (errno w, w)
         else
           (let ifr =
                  (if set' \<noteq> 0
                   then set_ifr_flags
                          (ucast ((scast (ifr_flags ifr) :: u32) OR ucast flags)) ifr
                   else set_ifr_flags
                          (ucast ((scast (ifr_flags ifr) :: u32)
                                    AND (NOT (ucast flags) AND 0xffff))) ifr);
                (rc, ifr, w) = ioctl_ifreq os w skfd SIOCSIFFLAGS ifr
            in if rc < 0 then (errno w, w) else (0, w)))"

definition setup_tap :: "'k os \<Rightarrow> 'k world \<Rightarrow> int \<Rightarrow> string \<Rightarrow> int \<times> 'k world" where
  "setup_tap os w skfd name = setflags_tap os w skfd name (IFF_UP OR IFF_RUNNING) 1"

definition gethwaddr_tap ::
  "'k os \<Rightarrow> 'k world \<Rightarrow> int \<Rightarrow> u8 list \<Rightarrow> int \<times> u8 list \<times> 'k world" where
  "gethwaddr_tap os w tapfd ha =
     (let ifr = stack w;
          ifr = bzero_ifreq ifr;
          (rc, ifr, w) = ioctl_ifreq os w tapfd SIOCGIFHWADDR ifr
      in if rc < 0 then (errno w, ha, w)
         else (0, memcpy ha (sa_data ifr) ETH_ALEN, w))"

definition getname_tap ::
  "'k os \<Rightarrow> 'k world \<Rightarrow> int \<Rightarrow> string \<Rightarrow> int \<times> string \<times> 'k world" where
  "getname_tap os w tapfd name =
     (let ifr = stack w;
          ifr = bzero_ifreq ifr;
          (rc, ifr, w) = ioctl_ifreq os w tapfd TUNGETIFF ifr
      in if rc < 0 then (errno w, name, w)
         else (0, strncpy name (ifr_name ifr) IFNAMSIZ, w))"

text \<open>
  \<^verbatim>\<open>set_tap(int *skfd)\<close>: the pointer is \<open>None\<close> when it is \<^verbatim>\<open>NULL\<close>, otherwise
  \<open>Some\<close> of the integer it points to.
\<close>

definition set_tap :: "'k os \<Rightarrow> 'k world \<Rightarrow> int option \<Rightarrow> int \<times> int option \<times> 'k world" where
  "set_tap os w skfd =
     (case skfd of
        None \<Rightarrow> (- 1, None, w)
      | Some _ \<Rightarrow>
          (let (fd, w) = socket os w PF_INET SOCK_DGRAM IPPROTO_IP
           in if fd < 0 then (errno w, Some fd, w) else (0, Some fd, w)))"

definition set_tap_if :: "'k os \<Rightarrow> 'k world \<Rightarrow> int \<Rightarrow> string \<Rightarrow> int \<times> 'k world" where
  "set_tap_if os w fd name =
     (let ifr = stack w;
          ifr = bzero_ifreq ifr;
          ifr = set_ifr_flags (IFF_TAP OR IFF_NO_PI) ifr;
          ifr = ifr\<lparr>ifr_name := strncpy (ifr_name ifr) name IFNAMSIZ\<rparr>;
          (rc, ifr, w) = ioctl_ifreq os w fd TUNSETIFF ifr
      in if rc < 0 then (errno w, w) else (0, w))"

section \<open>A reference operating system\<close>

text \<open>
  Modelled from the spec: the operating system is not code of the repository. This is the
  interface table the spec's round-trip properties speak about: a set of open control
  sockets and, for each existing interface name, its flags word, its IPv4 address and
  netmask (if assigned) and its MTU. A configuration request on a descriptor that is not
  an open socket, or naming an interface that does not exist, fails; reading an address
  that was never assigned fails; an address whose family tag is not \<open>AF_INET\<close> is
  rejected. A failing request returns \<open>-1\<close>, sets \<^verbatim>\<open>errno\<close> and leaves the request
  record and the table as they were. \<^verbatim>\<open>SIOCSIFMTU\<close> is the request by which an MTU is
  set; the module never issues it.
\<close>

record iface =
  if_flags :: u16
  if_addr :: "u32 option"
  if_netmask :: "u32 option"
  if_mtu :: u32

record kernel =
  socks :: "int list"
  ifaces :: "string \<rightharpoonup> iface"

definition EBADF :: int where "EBADF = 9"
definition ENODEV :: int where "ENODEV = 19"
definition EINVAL :: int where "EINVAL = 22"
definition EADDRNOTAVAIL :: int where "EADDRNOTAVAIL = 99"

definition os_fail :: "int \<Rightarrow> ifreq \<Rightarrow> 'k \<Rightarrow> sysret \<times> 'k" where
  "os_fail e ifr k = (\<lparr>ret = - 1, err = e, out = ifr\<rparr>, k)"

definition os_ok :: "int \<Rightarrow> ifreq \<Rightarrow> 'k \<Rightarrow> sysret \<times> 'k" where
  "os_ok v ifr k = (\<lparr>ret = v, err = 0, out = ifr\<rparr>, k)"

definition set_iface :: "kernel \<Rightarrow> string \<Rightarrow> iface \<Rightarrow> kernel" where
  "set_iface k n i = k\<lparr>ifaces := (ifaces k)(n \<mapsto> i)\<rparr>"

definition ref_ioctl :: "kernel \<Rightarrow> int \<Rightarrow> ioctl_req \<Rightarrow> ifreq \<Rightarrow> sysret \<times> kernel" where
  "ref_ioctl k fd req ifr =
     (if fd \<notin> set (socks k) then os_fail EBADF ifr k
      else
        (case ifaces k (ifr_name ifr) of
           None \<Rightarrow> os_fail ENODEV ifr k
         | Some i \<Rightarrow>
             (case req of
                SIOCSIFADDR \<Rightarrow>
                  if sin_family ifr = AF_INET
                  then os_ok 0 ifr (set_iface k (ifr_name ifr) (i\<lparr>if_addr := Some (sin_addr ifr)\<rparr>))
                  else os_fail EINVAL ifr k
              | SIOCGIFADDR \<Rightarrow>
                  (case if_addr i of
                     None \<Rightarrow> os_fail EADDRNOTAVAIL ifr k
                   | Some a \<Rightarrow> os_ok 0 (set_sin_addr a (set_sin_family AF_INET ifr)) k)
              | SIOCSIFNETMASK \<Rightarrow>
                  if sin_family ifr = AF_INET
                  then os_ok 0 ifr (set_iface k (ifr_name ifr) (i\<lparr>if_netmask := Some (sin_addr ifr)\<rparr>))
                  else os_fail EINVAL ifr k
              | SIOCSIFMTU \<Rightarrow>
                  os_ok 0 ifr (set_iface k (ifr_name ifr) (i\<lparr>if_mtu := ifr_mtu ifr\<rparr>))
              | SIOCGIFMTU \<Rightarrow> os_ok 0 (set_ifr_mtu (if_mtu i) ifr) k
              | SIOCSIFFLAGS \<Rightarrow>
                  os_ok 0 ifr (set_iface k (ifr_name ifr) (i\<lparr>if_flags := ifr_flags ifr\<rparr>))
              | SIOCGIFFLAGS \<Rightarrow> os_ok 0 (set_ifr_flags (if_flags i) ifr) k
              | _ \<Rightarrow> os_fail EINVAL ifr k)))"

definition no_ifreq :: ifreq where
  "no_ifreq = \<lparr>ifr_name = [], ifr_ifru = []\<rparr>"

definition ref_os :: "kernel os" where
  "ref_os k c =
     (case c of
        Ioctl_ifreq fd req ifr \<Rightarrow> ref_ioctl k fd req ifr
      | Ioctl_int fd req v \<Rightarrow> os_fail EINVAL no_ifreq k
      | Socket d t p \<Rightarrow>
          (let fd = fold max (socks k) 2 + 1
           in os_ok fd no_ifreq (k\<lparr>socks := fd # socks k\<rparr>)))"

text \<open>An operating system that gives the same answer to every call.\<close>

definition const_os :: "sysret \<Rightarrow> unit os" where
  "const_os r k c = (r, k)"

section \<open>Notions the properties are stated with\<close>

text \<open>
  The errno convention of the header comments (\<^verbatim>\<open>\return errno on error, 0 on success\<close>):
  the operation called the operating system, every call before the last succeeded, and the
  return value is 0 when the last call succeeded and otherwise the \<^verbatim>\<open>errno\<close> that call
  left.
\<close>

definition errno_convention :: "(syscall \<times> sysret) list \<Rightarrow> int \<Rightarrow> bool" where
  "errno_convention calls rc \<longleftrightarrow>
     calls \<noteq> [] \<and> list_all (\<lambda>(c, r). 0 \<le> ret r) (butlast calls) \<and>
     rc = (if ret (snd (last calls)) < 0 then err (snd (last calls)) else 0)"

text \<open>
  How a name argument appears in the name field of a request: cut to the first
  \<open>IFNAMSIZ\<close> characters when it is longer than that, otherwise whole and followed by NUL
  padding.
\<close>

definition name_field_of :: "string \<Rightarrow> string" where
  "name_field_of name =
     (let n = c_str name
      in if IFNAMSIZ < length n then take IFNAMSIZ n
         else n @ replicate (IFNAMSIZ - length n) NUL)"

text \<open>
  The \<^verbatim>\<open>errno\<close> of the failing call, when the last call of a list failed.
\<close>

definition os_error :: "(syscall \<times> sysret) list \<Rightarrow> int option" where
  "os_error calls =
     (if calls = [] then None
      else if ret (snd (last calls)) < 0 then Some (err (snd (last calls))) else None)"

text \<open>The name fields of the request records in a list of calls, in order.\<close>

fun request_names :: "(syscall \<times> sysret) list \<Rightarrow> string list" where
  "request_names [] = []"
| "request_names ((Ioctl_ifreq fd req ifr, r) # cs) = ifr_name ifr # request_names cs"
| "request_names (c # cs) = request_names cs"

section \<open>Example states\<close>

text \<open>
  A state in which nothing has been called yet, over a given operating-system state and
  with given bytes where the local request record will live; and an interface table with
  one control socket (descriptor 3) and one interface \<open>tap0\<close>.
\<close>

definition boot :: "'k \<Rightarrow> ifreq \<Rightarrow> 'k world" where
  "boot k junk = \<lparr>kern = k, errno = 0, stack = junk, trace = []\<rparr>"

definition tap0_kernel :: kernel where
  "tap0_kernel =
     \<lparr>socks = [3],
      ifaces = [name_field_of ''tap0'' \<mapsto>
                  \<lparr>if_flags = 0x1002, if_addr = None, if_netmask = None, if_mtu = 1500\<rparr>]\<rparr>"

text \<open>
  The answer of an operating system that fails a call with \<^verbatim>\<open>errno\<close> 19 after writing
  over the request record.
\<close>

definition scribble :: sysret where
  "scribble = \<lparr>ret = - 1, err = 19,
      out = \<lparr>ifr_name = ''eth0'' @ replicate 12 NUL, ifr_ifru = replicate 24 0xaa\<rparr>\<rparr>"

section \<open>Auxiliary facts\<close>

subsection \<open>Bytes, strings and the request record\<close>

lemma of_le_le16: "of_le (le16 v) = v"
  unfolding le16_def
  by (rule bit_word_eqI) (auto simp add: bit_simps)

lemma of_le_le32: "of_le (le32 v) = v"
proof (rule bit_word_eqI)
  fix n :: nat
  assume n: "n < LENGTH(32)"
  then consider "n < 8" | "8 \<le> n" "n < 16" | "16 \<le> n" "n < 24" | "24 \<le> n" "n < 32"
    by fastforce
  then show "bit (of_le (le32 v) :: u32) n = bit v n"
    by cases (auto simp add: le32_def bit_simps)
qed

lemma c_promote_or: "ucast ((scast (F::u16) :: u32) OR ucast (B :: u16)) = F OR B"
  by (rule bit_word_eqI) (auto simp add: bit_simps)

lemma mask16: "(0xffff :: u32) = mask 16"
  by (simp add: mask_eq_exp_minus_1)

lemma c_promote_and_not:
  "(ucast ((scast (F::u16) :: u32) AND (NOT (ucast (B :: u16)) AND 0xffff)) :: u16) = F AND NOT B"
  unfolding mask16
  by (rule bit_word_eqI) (auto simp add: bit_simps)

lemma length_le16: "length (le16 v) = 2"
  by (simp add: le16_def)

lemma length_le32: "length (le32 v) = 4"
  by (simp add: le32_def)

lemma ifr_flags_set: "ifr_flags (set_ifr_flags v ifr) = v"
  by (simp add: ifr_flags_def set_ifr_flags_def load_def store_def of_le_le16 length_le16)

lemma bzero_ifreq_eq:
  "bzero_ifreq ifr = \<lparr>ifr_name = replicate IFNAMSIZ NUL, ifr_ifru = replicate IFRU_SIZE 0\<rparr>"
  by (cases ifr) (simp add: bzero_ifreq_def)

lemma takeWhile_pad: "\<forall>x\<in>set xs. P x \<Longrightarrow> \<not> P y \<Longrightarrow> takeWhile P (xs @ replicate m y) = xs"
  by (induction xs) auto

lemma c_str_no_NUL: "NUL \<notin> set (c_str s)"
  unfolding c_str_def by (induction s) auto

lemma c_str_pad: "c_str (take n (c_str s) @ replicate m NUL) = take n (c_str s)"
proof -
  have "\<forall>x\<in>set (take n (c_str s)). x \<noteq> NUL"
    using c_str_no_NUL[of s] by (auto dest: in_set_takeD)
  then show ?thesis
    unfolding c_str_def[of "_ @ _"] by (rule takeWhile_pad) simp
qed

lemma strncpy_name_field:
  "strncpy (replicate IFNAMSIZ NUL) name IFNAMSIZ = name_field_of name"
  by (simp add: strncpy_def name_field_of_def Let_def)

lemma c_str_name_field: "c_str (name_field_of name) = take IFNAMSIZ (c_str name)"
proof (cases "IFNAMSIZ < length (c_str name)")
  case True
  then show ?thesis
    using c_str_pad[of IFNAMSIZ name 0] by (simp add: name_field_of_def Let_def)
next
  case False
  then show ?thesis
    using c_str_pad[of IFNAMSIZ name "IFNAMSIZ - length (c_str name)"]
    by (simp add: name_field_of_def Let_def)
qed

lemma length_name_field: "length (name_field_of name) = IFNAMSIZ"
  by (simp add: name_field_of_def Let_def)

subsection \<open>Calls to the operating system\<close>

text \<open>
  Each call hands its request to the operating system once, logs the call with the answer,
  and takes the return value, \<^verbatim>\<open>errno\<close> and the request record from the answer.
\<close>

lemma ioctl_ifreq_eq:
  "ioctl_ifreq os w fd req ifr =
     (ret (fst (os (kern w) (Ioctl_ifreq fd req ifr))),
      out (fst (os (kern w) (Ioctl_ifreq fd req ifr))),
      w\<lparr>kern := snd (os (kern w) (Ioctl_ifreq fd req ifr)),
        errno := err (fst (os (kern w) (Ioctl_ifreq fd req ifr))),
        trace := trace w @ [(Ioctl_ifreq fd req ifr, fst (os (kern w) (Ioctl_ifreq fd req ifr)))]\<rparr>)"
  by (simp add: ioctl_ifreq_def do_syscall_def split: prod.splits)

lemma ioctl_int_eq:
  "ioctl_int os w fd req v =
     (ret (fst (os (kern w) (Ioctl_int fd req v))),
      w\<lparr>kern := snd (os (kern w) (Ioctl_int fd req v)),
        errno := err (fst (os (kern w) (Ioctl_int fd req v))),
        trace := trace w @ [(Ioctl_int fd req v, fst (os (kern w) (Ioctl_int fd req v)))]\<rparr>)"
  by (simp add: ioctl_int_def do_syscall_def split: prod.splits)

lemma socket_eq:
  "socket os w d t p =
     (ret (fst (os (kern w) (Socket d t p))),
      w\<lparr>kern := snd (os (kern w) (Socket d t p)),
        errno := err (fst (os (kern w) (Socket d t p))),
        trace := trace w @ [(Socket d t p, fst (os (kern w) (Socket d t p)))]\<rparr>)"
  by (simp add: socket_def do_syscall_def split: prod.splits)

lemmas sys_eqs = ioctl_ifreq_eq ioctl_int_eq socket_eq bzero_ifreq_eq Let_def

lemma issued_append [simp]:
  "issued w (w\<lparr>kern := k', errno := e, trace := trace w @ cs\<rparr>) = cs"
  by (simp add: issued_def)

lemma issued_append2 [simp]:
  "issued w (w\<lparr>kern := k', errno := e, trace := (trace w @ cs) @ ds\<rparr>) = cs @ ds"
  by (simp add: issued_def)

lemma issued_same [simp]: "issued w w = []"
  by (simp add: issued_def)

subsection \<open>Fields of the request record\<close>

lemma ifr_mtu_set: "ifr_mtu (set_ifr_mtu v ifr) = v"
  by (simp add: ifr_mtu_def set_ifr_mtu_def load_def store_def of_le_le32 length_le32)

lemma sockaddr_in_bytes:
  "store 4 (le32 W) (store 0 (le16 f) (replicate IFRU_SIZE 0)) =
     le16 f @ [0, 0] @ le32 W @ replicate 16 0"
  by (simp add: store_def le16_def le32_def IFRU_SIZE_def numeral_2_eq_2)

lemma sin_family_bytes: "of_le (load 0 2 (le16 f @ bs)) = f"
  using of_le_le16[of f] by (simp add: load_def length_le16)

lemma sin_addr_bytes: "length pre = 4 \<Longrightarrow> of_le (load 4 4 (pre @ le32 W @ bs)) = W"
  using of_le_le32[of W] by (simp add: load_def length_le32)

lemma flags_update_outside:
  "\<not> bit B n \<Longrightarrow> bit (if en \<noteq> (0::int) then F OR B else F AND NOT B) n = bit (F :: u16) n"
  by (auto simp add: bit_simps dest: bit_imp_le_length)

lemma set_ifr_flags_rest:
  "ifr_name (set_ifr_flags v ifr) = ifr_name ifr \<and>
   drop 2 (ifr_ifru (set_ifr_flags v ifr)) = drop 2 (ifr_ifru ifr)"
  by (simp add: set_ifr_flags_def store_def le16_def numeral_2_eq_2)

lemma setflags_tap_calls:
  fixes os :: "'k os"
  assumes rd: "os (kern w) (Ioctl_ifreq skfd SIOCGIFFLAGS
                 \<lparr>ifr_name = name_field_of name, ifr_ifru = replicate IFRU_SIZE 0\<rparr>) = (r1, k1)"
    and ok: "0 \<le> ret r1"
  shows "setflags_tap os w skfd name B en =
    (if ret (fst (os k1 (Ioctl_ifreq skfd SIOCSIFFLAGS
          (set_ifr_flags (if en \<noteq> 0 then ifr_flags (out r1) OR B
                          else ifr_flags (out r1) AND NOT B) (out r1))))) < 0
     then err (fst (os k1 (Ioctl_ifreq skfd SIOCSIFFLAGS
          (set_ifr_flags (if en \<noteq> 0 then ifr_flags (out r1) OR B
                          else ifr_flags (out r1) AND NOT B) (out r1))))) else 0,
     w\<lparr>kern := snd (os k1 (Ioctl_ifreq skfd SIOCSIFFLAGS
          (set_ifr_flags (if en \<noteq> 0 then ifr_flags (out r1) OR B
                          else ifr_flags (out r1) AND NOT B) (out r1)))),
       errno := err (fst (os k1 (Ioctl_ifreq skfd SIOCSIFFLAGS
          (set_ifr_flags (if en \<noteq> 0 then ifr_flags (out r1) OR B
                          else ifr_flags (out r1) AND NOT B) (out r1))))),
       trace := trace w @
         [(Ioctl_ifreq skfd SIOCGIFFLAGS
             \<lparr>ifr_name = name_field_of name, ifr_ifru = replicate IFRU_SIZE 0\<rparr>, r1),
          (Ioctl_ifreq skfd SIOCSIFFLAGS
             (set_ifr_flags (if en \<noteq> 0 then ifr_flags (out r1) OR B
                             else ifr_flags (out r1) AND NOT B) (out r1)),
           fst (os k1 (Ioctl_ifreq skfd SIOCSIFFLAGS
             (set_ifr_flags (if en \<noteq> 0 then ifr_flags (out r1) OR B
                             else ifr_flags (out r1) AND NOT B) (out r1)))))]\<rparr>)"
  using rd ok
  by (cases "en = 0")
    (simp_all add: setflags_tap_def sys_eqs strncpy_name_field c_promote_or c_promote_and_not)

subsection \<open>The reference operating system\<close>

lemma ref_os_set_addr:
  fixes A :: u32 and n :: string
  assumes "skfd \<in> set (socks k)" and "ifaces k n = Some i"
    and "q = \<lparr>ifr_name = n,
               ifr_ifru = store 4 (le32 A) (store 0 (le16 AF_INET) (replicate IFRU_SIZE 0))\<rparr>"
  shows "ref_os k (Ioctl_ifreq skfd SIOCSIFADDR q)
           = (\<lparr>ret = 0, err = 0, out = q\<rparr>, set_iface k n (i\<lparr>if_addr := Some A\<rparr>))"
proof -
  have "sin_family q = AF_INET"
    by (simp add: assms(3) sin_family_def sockaddr_in_bytes sin_family_bytes)
  moreover have "sin_addr q = A"
    unfolding assms(3) sin_addr_def ifreq.simps sockaddr_in_bytes
    using sin_addr_bytes[of "le16 AF_INET @ [0, 0]" A "replicate 16 0"]
    by (simp add: length_le16)
  ultimately show ?thesis
    using assms(1,2) by (simp add: ref_os_def ref_ioctl_def os_ok_def assms(3))
qed

text \<open>The definitions a concrete run unfolds.\<close>

lemmas eval_defs =
  setup_tap_def setflags_tap_def setipaddr_tap_def getipaddr_tap_def getmtu_tap_def
  gethwaddr_tap_def getname_tap_def set_tap_if_def set_tap_def setpersist_tap_def
  setnetmask_tap_def ioctl_ifreq_def ioctl_int_def socket_def do_syscall_def
  ref_os_def ref_ioctl_def const_os_def boot_def tap0_kernel_def set_iface_def
  os_ok_def os_fail_def no_ifreq_def
  name_field_of_def c_str_def NUL_def strncpy_def memcpy_def bzero_ifreq_def
  IFNAMSIZ_def IFRU_SIZE_def ETH_ALEN_def
  set_ifr_flags_def ifr_flags_def set_ifr_mtu_def ifr_mtu_def set_sin_family_def sin_family_def
  set_sin_addr_def sin_addr_def sa_data_def store_def load_def le16_def le32_def
  issued_def os_error_def Let_def

section \<open>The properties\<close>

text \<open>
  Claim C1. \<open>setflags_tap\<close> first asks the operating system for the flags of the named
  interface (\<^verbatim>\<open>SIOCGIFFLAGS\<close> on the control socket, the name field filled from the name
  argument, everything else zero). Whenever that call succeeds, returning a record whose
  flags word is \<open>F\<close>, the operation makes exactly one more call: \<^verbatim>\<open>SIOCSIFFLAGS\<close> on the
  same socket with the returned record, in which only the flags word is replaced, by
  \<open>F OR B\<close> when \<open>set\<close> is nonzero and by \<open>F AND NOT B\<close> when it is zero; every bit
  outside \<open>B\<close> is as it was read. \<open>setup_tap\<close> does the same with the up and running
  bits: it writes \<open>F\<close> with those two bits set and all other bits of \<open>F\<close> unchanged.
\<close>

theorem setflags_tap_read_modify_write:
  fixes os :: "'k os" and r1 :: sysret and en :: int and B F W U :: u16 and qW qU :: ifreq
  defines "F \<equiv> ifr_flags (out r1)"
    and "W \<equiv> (if en \<noteq> 0 then ifr_flags (out r1) OR B else ifr_flags (out r1) AND NOT B)"
    and "U \<equiv> ifr_flags (out r1) OR (IFF_UP OR IFF_RUNNING)"
  defines "qW \<equiv> set_ifr_flags W (out r1)"
    and "qU \<equiv> set_ifr_flags U (out r1)"
  assumes rd: "os (kern w) (Ioctl_ifreq skfd SIOCGIFFLAGS
                 \<lparr>ifr_name = name_field_of name, ifr_ifru = replicate IFRU_SIZE 0\<rparr>) = (r1, k1)"
    and ok: "0 \<le> ret r1"
  shows
    "issued w (snd (setflags_tap os w skfd name B en)) =
       [(Ioctl_ifreq skfd SIOCGIFFLAGS
           \<lparr>ifr_name = name_field_of name, ifr_ifru = replicate IFRU_SIZE 0\<rparr>, r1),
        (Ioctl_ifreq skfd SIOCSIFFLAGS qW, fst (os k1 (Ioctl_ifreq skfd SIOCSIFFLAGS qW)))] \<and>
     kern (snd (setflags_tap os w skfd name B en)) = snd (os k1 (Ioctl_ifreq skfd SIOCSIFFLAGS qW)) \<and>
     ifr_flags qW = W \<and> ifr_name qW = ifr_name (out r1) \<and>
     drop 2 (ifr_ifru qW) = drop 2 (ifr_ifru (out r1)) \<and>
     W = (if en \<noteq> 0 then F OR B else F AND NOT B) \<and>
     (\<forall>n. \<not> bit B n \<longrightarrow> bit W n = bit F n) \<and>
     issued w (snd (setup_tap os w skfd name)) =
       [(Ioctl_ifreq skfd SIOCGIFFLAGS
           \<lparr>ifr_name = name_field_of name, ifr_ifru = replicate IFRU_SIZE 0\<rparr>, r1),
        (Ioctl_ifreq skfd SIOCSIFFLAGS qU, fst (os k1 (Ioctl_ifreq skfd SIOCSIFFLAGS qU)))] \<and>
     kern (snd (setup_tap os w skfd name)) = snd (os k1 (Ioctl_ifreq skfd SIOCSIFFLAGS qU)) \<and>
     ifr_flags qU = U \<and> ifr_name qU = ifr_name (out r1) \<and>
     drop 2 (ifr_ifru qU) = drop 2 (ifr_ifru (out r1)) \<and>
     U = F OR (IFF_UP OR IFF_RUNNING) \<and>
     U AND (IFF_UP OR IFF_RUNNING) = IFF_UP OR IFF_RUNNING \<and>
     U AND NOT (IFF_UP OR IFF_RUNNING) = F AND NOT (IFF_UP OR IFF_RUNNING)"
proof -
  have a: "issued w (snd (setflags_tap os w skfd name B en)) =
       [(Ioctl_ifreq skfd SIOCGIFFLAGS
           \<lparr>ifr_name = name_field_of name, ifr_ifru = replicate IFRU_SIZE 0\<rparr>, r1),
        (Ioctl_ifreq skfd SIOCSIFFLAGS qW, fst (os k1 (Ioctl_ifreq skfd SIOCSIFFLAGS qW)))]"
    "kern (snd (setflags_tap os w skfd name B en)) = snd (os k1 (Ioctl_ifreq skfd SIOCSIFFLAGS qW))"
    unfolding qW_def W_def setflags_tap_calls[where os = os and w = w, OF rd ok] by (simp_all add: issued_def)
  have b: "issued w (snd (setup_tap os w skfd name)) =
       [(Ioctl_ifreq skfd SIOCGIFFLAGS
           \<lparr>ifr_name = name_field_of name, ifr_ifru = replicate IFRU_SIZE 0\<rparr>, r1),
        (Ioctl_ifreq skfd SIOCSIFFLAGS qU, fst (os k1 (Ioctl_ifreq skfd SIOCSIFFLAGS qU)))]"
    "kern (snd (setup_tap os w skfd name)) = snd (os k1 (Ioctl_ifreq skfd SIOCSIFFLAGS qU))"
    unfolding qU_def U_def setup_tap_def setflags_tap_calls[where os = os and w = w, OF rd ok] by (simp_all add: issued_def)
  have c: "ifr_flags qW = W" "ifr_name qW = ifr_name (out r1)"
    "drop 2 (ifr_ifru qW) = drop 2 (ifr_ifru (out r1))"
    "ifr_flags qU = U" "ifr_name qU = ifr_name (out r1)"
    "drop 2 (ifr_ifru qU) = drop 2 (ifr_ifru (out r1))"
    unfolding qW_def qU_def by (simp_all add: ifr_flags_set set_ifr_flags_rest)
  have d: "W = (if en \<noteq> 0 then F OR B else F AND NOT B)" "U = F OR (IFF_UP OR IFF_RUNNING)"
    by (simp_all add: W_def U_def F_def)
  have e: "\<forall>n. \<not> bit B n \<longrightarrow> bit W n = bit F n"
    unfolding d(1) by (simp add: flags_update_outside)
  have f: "U AND (IFF_UP OR IFF_RUNNING) = IFF_UP OR IFF_RUNNING"
    unfolding d(2) by (rule bit_word_eqI) (auto simp add: bit_simps)
  have g: "U AND NOT (IFF_UP OR IFF_RUNNING) = F AND NOT (IFF_UP OR IFF_RUNNING)"
    unfolding d(2) by (rule bit_word_eqI) (auto simp add: bit_simps)
  from a b c d e f g show ?thesis
    by blast
qed

text \<open>
  On the reference operating system \<open>tap0\<close> has flags \<open>0x1002\<close>. Clearing bit \<open>0x2\<close>
  reads them, writes \<open>0x1000\<close> and leaves the interface with \<open>0x1000\<close>; \<open>setup_tap\<close>
  writes \<open>0x1043\<close> and leaves the interface with \<open>0x1043\<close>.
\<close>

theorem setflags_tap_read_modify_write_witness:
  "ref_os (kern (boot tap0_kernel no_ifreq))
      (Ioctl_ifreq 3 SIOCGIFFLAGS
         \<lparr>ifr_name = name_field_of ''tap0'', ifr_ifru = replicate IFRU_SIZE 0\<rparr>)
     = (\<lparr>ret = 0, err = 0,
          out = set_ifr_flags 0x1002
                  \<lparr>ifr_name = name_field_of ''tap0'', ifr_ifru = replicate IFRU_SIZE 0\<rparr>\<rparr>,
        tap0_kernel) \<and>
   map fst (issued (boot tap0_kernel no_ifreq)
      (snd (setflags_tap ref_os (boot tap0_kernel no_ifreq) 3 ''tap0'' 0x2 0)))
     = [Ioctl_ifreq 3 SIOCGIFFLAGS
          \<lparr>ifr_name = name_field_of ''tap0'', ifr_ifru = replicate IFRU_SIZE 0\<rparr>,
        Ioctl_ifreq 3 SIOCSIFFLAGS
          (set_ifr_flags 0x1000
             \<lparr>ifr_name = name_field_of ''tap0'', ifr_ifru = replicate IFRU_SIZE 0\<rparr>)] \<and>
   map_option if_flags
      (ifaces (kern (snd (setflags_tap ref_os (boot tap0_kernel no_ifreq) 3 ''tap0'' 0x2 0)))
         (name_field_of ''tap0'')) = Some 0x1000 \<and>
   map fst (issued (boot tap0_kernel no_ifreq)
      (snd (setup_tap ref_os (boot tap0_kernel no_ifreq) 3 ''tap0'')))
     = [Ioctl_ifreq 3 SIOCGIFFLAGS
          \<lparr>ifr_name = name_field_of ''tap0'', ifr_ifru = replicate IFRU_SIZE 0\<rparr>,
        Ioctl_ifreq 3 SIOCSIFFLAGS
          (set_ifr_flags 0x1043
             \<lparr>ifr_name = name_field_of ''tap0'', ifr_ifru = replicate IFRU_SIZE 0\<rparr>)] \<and>
   map_option if_flags
      (ifaces (kern (snd (setup_tap ref_os (boot tap0_kernel no_ifreq) 3 ''tap0'')))
         (name_field_of ''tap0'')) = Some 0x1043"
proof -
  let ?q = "\<lparr>ifr_name = name_field_of ''tap0'', ifr_ifru = replicate IFRU_SIZE 0\<rparr>"
  let ?w = "boot tap0_kernel no_ifreq"
  define r where "r = \<lparr>ret = 0, err = 0, out = set_ifr_flags 0x1002 ?q\<rparr>"
  have rd: "ref_os (kern ?w) (Ioctl_ifreq 3 SIOCGIFFLAGS ?q) = (r, tap0_kernel)"
    by (simp add: r_def ref_os_def ref_ioctl_def boot_def tap0_kernel_def os_ok_def)
  have ok: "0 \<le> ret r"
    by (simp add: r_def)
  have F: "ifr_flags (out r) = 0x1002"
    by (simp add: r_def ifr_flags_set)
  have Wv: "(if (0::int) \<noteq> 0 then ifr_flags (out r) OR 2 else ifr_flags (out r) AND NOT 2) = 0x1000"
    by (simp add: F)
  have Uv: "ifr_flags (out r) OR (IFF_UP OR IFF_RUNNING) = 0x1043"
    by (simp add: F IFF_UP_def IFF_RUNNING_def)
  have wr: "set_ifr_flags v (out r) = set_ifr_flags v ?q" for v
    by (simp add: r_def set_ifr_flags_def store_def le16_def IFRU_SIZE_def)
  have k: "map_option if_flags (ifaces (snd (ref_os tap0_kernel
              (Ioctl_ifreq 3 SIOCSIFFLAGS (set_ifr_flags v ?q)))) (name_field_of ''tap0'')) = Some v" for v
    using ifr_flags_set[of v ?q]
    by (simp add: ref_os_def ref_ioctl_def tap0_kernel_def os_ok_def set_iface_def
        set_ifr_flags_def)
  note run = setflags_tap_read_modify_write[where os = ref_os and w = ?w and skfd = 3
      and name = "''tap0''" and B = 2 and en = 0, OF rd ok, unfolded Wv Uv wr]
  from run have c1: "issued ?w (snd (setflags_tap ref_os ?w 3 ''tap0'' 0x2 0)) =
      [(Ioctl_ifreq 3 SIOCGIFFLAGS ?q, r),
       (Ioctl_ifreq 3 SIOCSIFFLAGS (set_ifr_flags 0x1000 ?q),
        fst (ref_os tap0_kernel (Ioctl_ifreq 3 SIOCSIFFLAGS (set_ifr_flags 0x1000 ?q))))]"
    and c2: "kern (snd (setflags_tap ref_os ?w 3 ''tap0'' 0x2 0)) =
        snd (ref_os tap0_kernel (Ioctl_ifreq 3 SIOCSIFFLAGS (set_ifr_flags 0x1000 ?q)))"
    and u1: "issued ?w (snd (setup_tap ref_os ?w 3 ''tap0'')) =
      [(Ioctl_ifreq 3 SIOCGIFFLAGS ?q, r),
       (Ioctl_ifreq 3 SIOCSIFFLAGS (set_ifr_flags 0x1043 ?q),
        fst (ref_os tap0_kernel (Ioctl_ifreq 3 SIOCSIFFLAGS (set_ifr_flags 0x1043 ?q))))]"
    and u2: "kern (snd (setup_tap ref_os ?w 3 ''tap0'')) =
        snd (ref_os tap0_kernel (Ioctl_ifreq 3 SIOCSIFFLAGS (set_ifr_flags 0x1043 ?q)))"
    by blast+
  show ?thesis
    unfolding c1 c2 u1 u2 k using rd by (simp add: r_def)
qed

text \<open>
  Claim C2. On the reference operating system, for every open control socket, every name
  of an existing interface and every address \<open>A\<close>: \<open>setipaddr_tap\<close> followed by
  \<open>getipaddr_tap\<close> succeeds and returns \<open>A\<close>. Likewise \<open>getmtu_tap\<close> returns the MTU the
  interface table holds, which is the one most recently set: the module has no operation
  that sets an MTU, so the setting is a \<^verbatim>\<open>SIOCSIFMTU\<close> request made to the operating
  system directly.
\<close>

theorem ipaddr_mtu_round_trip:
  assumes sock: "skfd \<in> set (socks (kern w))"
    and ifc: "ifaces (kern w) (name_field_of name) = Some i"
  shows
    "(case setipaddr_tap ref_os w skfd name A of (rc1, w1) \<Rightarrow>
        case getipaddr_tap ref_os w1 skfd name a0 of (rc2, a, w2) \<Rightarrow>
          rc1 = 0 \<and> rc2 = 0 \<and> a = A) \<and>
     (case getmtu_tap ref_os w skfd name m0 of (rc, m, w1) \<Rightarrow> rc = 0 \<and> m = if_mtu i) \<and>
     (\<forall>q. ifr_name q = name_field_of name \<longrightarrow>
        (case do_syscall ref_os w (Ioctl_ifreq skfd SIOCSIFMTU q) of (r, w1) \<Rightarrow>
           case getmtu_tap ref_os w1 skfd name m0 of (rc, m, w2) \<Rightarrow>
             ret r = 0 \<and> rc = 0 \<and> m = ifr_mtu q))"
proof (intro conjI allI impI)
  define q where "q = \<lparr>ifr_name = name_field_of name,
     ifr_ifru = store 4 (le32 A) (store 0 (le16 AF_INET) (replicate IFRU_SIZE 0))\<rparr>"
  define g where "g = \<lparr>ifr_name = name_field_of name, ifr_ifru = replicate IFRU_SIZE 0\<rparr>"
  have set: "ref_os (kern w) (Ioctl_ifreq skfd SIOCSIFADDR q)
           = (\<lparr>ret = 0, err = 0, out = q\<rparr>,
              set_iface (kern w) (name_field_of name) (i\<lparr>if_addr := Some A\<rparr>))"
    by (rule ref_os_set_addr[OF sock ifc q_def])
  have get: "ref_os (set_iface (kern w) (name_field_of name) (i\<lparr>if_addr := Some A\<rparr>))
               (Ioctl_ifreq skfd SIOCGIFADDR g)
      = (\<lparr>ret = 0, err = 0, out = set_sin_addr A (set_sin_family AF_INET g)\<rparr>,
          set_iface (kern w) (name_field_of name) (i\<lparr>if_addr := Some A\<rparr>))"
    using sock by (simp add: ref_os_def ref_ioctl_def os_ok_def set_iface_def g_def)
  have rd: "sin_addr (set_sin_addr A (set_sin_family AF_INET g)) = A"
    unfolding g_def set_sin_family_def set_sin_addr_def sin_addr_def ifreq.simps sockaddr_in_bytes
    using sin_addr_bytes[of "le16 AF_INET @ [0, 0]" A "replicate 16 0"]
    by (simp add: length_le16)
  show "case setipaddr_tap ref_os w skfd name A of (rc1, w1) \<Rightarrow>
        case getipaddr_tap ref_os w1 skfd name a0 of (rc2, a, w2) \<Rightarrow>
          rc1 = 0 \<and> rc2 = 0 \<and> a = A"
    using set get rd
    by (simp add: setipaddr_tap_def getipaddr_tap_def sys_eqs strncpy_name_field
        set_sin_family_def set_sin_addr_def q_def g_def)
next
  show "case getmtu_tap ref_os w skfd name m0 of (rc, m, w1) \<Rightarrow> rc = 0 \<and> m = if_mtu i"
    using sock ifc
    by (simp add: getmtu_tap_def sys_eqs strncpy_name_field ref_os_def ref_ioctl_def os_ok_def
        ifr_mtu_set)
next
  fix q :: ifreq
  assume "ifr_name q = name_field_of name"
  then show "case do_syscall ref_os w (Ioctl_ifreq skfd SIOCSIFMTU q) of (r, w1) \<Rightarrow>
           case getmtu_tap ref_os w1 skfd name m0 of (rc, m, w2) \<Rightarrow>
             ret r = 0 \<and> rc = 0 \<and> m = ifr_mtu q"
    using sock ifc
    by (simp add: do_syscall_def getmtu_tap_def sys_eqs strncpy_name_field ref_os_def
        ref_ioctl_def os_ok_def set_iface_def ifr_mtu_set)
qed

text \<open>
  On the example table: 10.0.0.1 (in network byte order) is read back, the MTU is 1500 as
  found, and 9000 once that was set.
\<close>

theorem ipaddr_mtu_round_trip_witness:
  "3 \<in> set (socks (kern (boot tap0_kernel no_ifreq))) \<and>
   map_option if_mtu (ifaces (kern (boot tap0_kernel no_ifreq)) (name_field_of ''tap0'')) = Some 1500 \<and>
   fst (setipaddr_tap ref_os (boot tap0_kernel no_ifreq) 3 ''tap0'' 0x0100000A) = 0 \<and>
   fst (snd (getipaddr_tap ref_os
      (snd (setipaddr_tap ref_os (boot tap0_kernel no_ifreq) 3 ''tap0'' 0x0100000A)) 3 ''tap0'' 0))
     = 0x0100000A \<and>
   fst (snd (getmtu_tap ref_os (boot tap0_kernel no_ifreq) 3 ''tap0'' 0)) = 1500 \<and>
   fst (snd (getmtu_tap ref_os
      (snd (do_syscall ref_os (boot tap0_kernel no_ifreq)
         (Ioctl_ifreq 3 SIOCSIFMTU
            (set_ifr_mtu 9000 \<lparr>ifr_name = name_field_of ''tap0'', ifr_ifru = replicate 24 0\<rparr>))))
      3 ''tap0'' 0)) = 9000"
proof -
  have s: "3 \<in> set (socks (kern (boot tap0_kernel no_ifreq)))"
    by (simp add: boot_def tap0_kernel_def)
  have i: "ifaces (kern (boot tap0_kernel no_ifreq)) (name_field_of ''tap0'')
      = Some \<lparr>if_flags = 0x1002, if_addr = None, if_netmask = None, if_mtu = 1500\<rparr>"
    by (simp add: boot_def tap0_kernel_def)
  have n: "ifr_name (set_ifr_mtu 9000 \<lparr>ifr_name = name_field_of ''tap0'', ifr_ifru = replicate 24 0\<rparr>)
      = name_field_of ''tap0''"
    by (simp add: set_ifr_mtu_def)
  have m: "ifr_mtu (set_ifr_mtu 9000 \<lparr>ifr_name = name_field_of ''tap0'', ifr_ifru = replicate 24 0\<rparr>)
      = 9000"
    by (rule ifr_mtu_set)
  from ipaddr_mtu_round_trip[OF s i, of "0x0100000A" 0 0] n m s i
  show ?thesis
    by (auto simp add: case_prod_unfold)
qed

text \<open>
  Claim C3. Every operation is to return 0 when the call to the operating system succeeded
  and otherwise the \<^verbatim>\<open>errno\<close> of the failing call, never a value of the module's own;
  the header comment of \<open>set_tap\<close> says the same (\<^verbatim>\<open>\return errno on error, 0 on success\<close>).
  \<open>set_tap\<close> with a null pointer does not keep to it: it returns \<open>-1\<close> although it made
  no call, so no \<^verbatim>\<open>errno\<close> was reported that it could be.
\<close>

theorem set_tap_null_breaks_errno_convention:
  "set_tap (const_os \<lparr>ret = 0, err = 0, out = no_ifreq\<rparr>) (boot () no_ifreq) None
     = (- 1, None, boot () no_ifreq) \<and>
   issued (boot () no_ifreq)
     (snd (snd (set_tap (const_os \<lparr>ret = 0, err = 0, out = no_ifreq\<rparr>) (boot () no_ifreq) None)))
     = [] \<and>
   \<not> errno_convention
        (issued (boot () no_ifreq)
           (snd (snd (set_tap (const_os \<lparr>ret = 0, err = 0, out = no_ifreq\<rparr>)
                        (boot () no_ifreq) None))))
        (fst (set_tap (const_os \<lparr>ret = 0, err = 0, out = no_ifreq\<rparr>) (boot () no_ifreq) None))"
  by (simp add: set_tap_def errno_convention_def)

text \<open>
  Every other path keeps to the convention: \<open>set_tap\<close> with a pointer to an integer, and
  each of the other operations, calls the operating system and returns 0 when the (last)
  call succeeded and otherwise the \<^verbatim>\<open>errno\<close> that the failing call left, unmodified.
\<close>

lemma errno_convention_other_paths:
  fixes os :: "'k os"
  shows
    "errno_convention (issued w (snd (setpersist_tap os w fd))) (fst (setpersist_tap os w fd)) \<and>
     errno_convention (issued w (snd (snd (getmtu_tap os w skfd name mtu))))
       (fst (getmtu_tap os w skfd name mtu)) \<and>
     errno_convention (issued w (snd (setipaddr_tap os w skfd name a)))
       (fst (setipaddr_tap os w skfd name a)) \<and>
     errno_convention (issued w (snd (snd (getipaddr_tap os w skfd name a0))))
       (fst (getipaddr_tap os w skfd name a0)) \<and>
     errno_convention (issued w (snd (setnetmask_tap os w skfd name a)))
       (fst (setnetmask_tap os w skfd name a)) \<and>
     errno_convention (issued w (snd (setflags_tap os w skfd name B en)))
       (fst (setflags_tap os w skfd name B en)) \<and>
     errno_convention (issued w (snd (setup_tap os w skfd name)))
       (fst (setup_tap os w skfd name)) \<and>
     errno_convention (issued w (snd (snd (gethwaddr_tap os w fd ha))))
       (fst (gethwaddr_tap os w fd ha)) \<and>
     errno_convention (issued w (snd (snd (getname_tap os w fd buf))))
       (fst (getname_tap os w fd buf)) \<and>
     errno_convention (issued w (snd (snd (set_tap os w (Some v)))))
       (fst (set_tap os w (Some v))) \<and>
     errno_convention (issued w (snd (set_tap_if os w fd name)))
       (fst (set_tap_if os w fd name))"
  by (simp add: setpersist_tap_def getmtu_tap_def setipaddr_tap_def getipaddr_tap_def
      setnetmask_tap_def setflags_tap_def setup_tap_def gethwaddr_tap_def getname_tap_def
      set_tap_def set_tap_if_def sys_eqs errno_convention_def)

text \<open>
  Claim C4. Each of \<open>set_tap_if\<close>, \<open>getmtu_tap\<close>, \<open>setipaddr_tap\<close>, \<open>getipaddr_tap\<close>,
  \<open>setnetmask_tap\<close> and \<open>setflags_tap\<close> hands the operating system a request whose name
  field is the name argument cut to its first \<open>IFNAMSIZ\<close> characters when it is longer
  than \<open>IFNAMSIZ\<close> (the request is made all the same), and the whole name followed by NUL
  padding when it has at most \<open>IFNAMSIZ\<close> characters.
\<close>

theorem name_copied_or_truncated:
  fixes os :: "'k os"
  shows
    "take 1 (request_names (issued w (snd (set_tap_if os w fd name)))) = [name_field_of name] \<and>
     take 1 (request_names (issued w (snd (snd (getmtu_tap os w skfd name mtu)))))
       = [name_field_of name] \<and>
     take 1 (request_names (issued w (snd (setipaddr_tap os w skfd name a))))
       = [name_field_of name] \<and>
     take 1 (request_names (issued w (snd (snd (getipaddr_tap os w skfd name a0)))))
       = [name_field_of name] \<and>
     take 1 (request_names (issued w (snd (setnetmask_tap os w skfd name m))))
       = [name_field_of name] \<and>
     take 1 (request_names (issued w (snd (setflags_tap os w skfd name B en))))
       = [name_field_of name] \<and>
     length (name_field_of name) = IFNAMSIZ \<and>
     (IFNAMSIZ < length (c_str name) \<longrightarrow>
        name_field_of name = take IFNAMSIZ (c_str name) \<and> name_field_of name \<noteq> c_str name) \<and>
     (length (c_str name) \<le> IFNAMSIZ \<longrightarrow>
        name_field_of name = c_str name @ replicate (IFNAMSIZ - length (c_str name)) NUL \<and>
        c_str (name_field_of name) = c_str name)"
proof -
  have long: "IFNAMSIZ < length (c_str name) \<longrightarrow>
        name_field_of name = take IFNAMSIZ (c_str name) \<and> name_field_of name \<noteq> c_str name"
  proof
    assume l: "IFNAMSIZ < length (c_str name)"
    then have "length (name_field_of name) \<noteq> length (c_str name)"
      by (simp add: length_name_field)
    with l show "name_field_of name = take IFNAMSIZ (c_str name) \<and> name_field_of name \<noteq> c_str name"
      by (auto simp add: name_field_of_def)
  qed
  have short: "length (c_str name) \<le> IFNAMSIZ \<longrightarrow>
        name_field_of name = c_str name @ replicate (IFNAMSIZ - length (c_str name)) NUL \<and>
        c_str (name_field_of name) = c_str name"
    by (simp add: c_str_name_field) (simp add: name_field_of_def Let_def)
  have reqs:
    "take 1 (request_names (issued w (snd (set_tap_if os w fd name)))) = [name_field_of name]"
    "take 1 (request_names (issued w (snd (snd (getmtu_tap os w skfd name mtu)))))
       = [name_field_of name]"
    "take 1 (request_names (issued w (snd (setipaddr_tap os w skfd name a))))
       = [name_field_of name]"
    "take 1 (request_names (issued w (snd (snd (getipaddr_tap os w skfd name a0)))))
       = [name_field_of name]"
    "take 1 (request_names (issued w (snd (setnetmask_tap os w skfd name m))))
       = [name_field_of name]"
    "take 1 (request_names (issued w (snd (setflags_tap os w skfd name B en))))
       = [name_field_of name]"
    by (simp_all add: set_tap_if_def getmtu_tap_def setipaddr_tap_def getipaddr_tap_def
        setnetmask_tap_def setflags_tap_def sys_eqs strncpy_name_field set_ifr_flags_def
        set_sin_family_def set_sin_addr_def)
  from reqs long short length_name_field[of name] show ?thesis
    by blast
qed

text \<open>
  A name of 20 characters reaches the operating system as its first 16; \<open>tap0\<close> reaches
  it whole.
\<close>

theorem name_copied_or_truncated_witness:
  "IFNAMSIZ < length (c_str ''virtual_ethernet_007'') \<and>
   take 1 (request_names (issued (boot () no_ifreq)
      (snd (set_tap_if (const_os \<lparr>ret = 0, err = 0, out = no_ifreq\<rparr>) (boot () no_ifreq) 5
              ''virtual_ethernet_007'')))) = [''virtual_ethernet''] \<and>
   length (c_str ''tap0'') \<le> IFNAMSIZ \<and>
   take 1 (request_names (issued (boot () no_ifreq)
      (snd (snd (getmtu_tap (const_os \<lparr>ret = 0, err = 0, out = no_ifreq\<rparr>) (boot () no_ifreq) 3
              ''tap0'' 0))))) = [''tap0'' @ replicate 12 NUL] \<and>
   c_str (name_field_of ''tap0'') = ''tap0''"
proof -
  have l: "IFNAMSIZ < length (c_str ''virtual_ethernet_007'')"
    by (simp add: c_str_def NUL_def IFNAMSIZ_def)
  have lv: "take IFNAMSIZ (c_str ''virtual_ethernet_007'') = ''virtual_ethernet''"
    by (simp add: c_str_def NUL_def IFNAMSIZ_def)
  have s: "length (c_str ''tap0'') \<le> IFNAMSIZ"
    by (simp add: c_str_def NUL_def IFNAMSIZ_def)
  have sv: "c_str ''tap0'' @ replicate (IFNAMSIZ - length (c_str ''tap0'')) NUL
              = ''tap0'' @ replicate 12 NUL" "c_str ''tap0'' = ''tap0''"
    by (simp_all add: c_str_def NUL_def IFNAMSIZ_def)
  note long = name_copied_or_truncated[of "boot () no_ifreq"
        "const_os \<lparr>ret = 0, err = 0, out = no_ifreq\<rparr>" 5 "''virtual_ethernet_007''" 3 0 0 0 0 0 0]
  note short = name_copied_or_truncated[of "boot () no_ifreq"
        "const_os \<lparr>ret = 0, err = 0, out = no_ifreq\<rparr>" 5 "''tap0''" 3 0 0 0 0 0 0]
  from long l have "name_field_of ''virtual_ethernet_007'' = take IFNAMSIZ (c_str ''virtual_ethernet_007'')"
    by blast
  with long lv have a: "take 1 (request_names (issued (boot () no_ifreq)
      (snd (set_tap_if (const_os \<lparr>ret = 0, err = 0, out = no_ifreq\<rparr>) (boot () no_ifreq) 5
              ''virtual_ethernet_007'')))) = [''virtual_ethernet'']"
    by metis
  from short s have e: "name_field_of ''tap0'' = c_str ''tap0'' @ replicate (IFNAMSIZ - length (c_str ''tap0'')) NUL"
    "c_str (name_field_of ''tap0'') = c_str ''tap0''"
    by blast+
  from e(1) sv(1) have "name_field_of ''tap0'' = ''tap0'' @ replicate 12 NUL"
    by (rule trans)
  with short have b1: "take 1 (request_names (issued (boot () no_ifreq)
      (snd (snd (getmtu_tap (const_os \<lparr>ret = 0, err = 0, out = no_ifreq\<rparr>) (boot () no_ifreq) 3
              ''tap0'' 0))))) = [''tap0'' @ replicate 12 NUL]"
    by metis
  from e(2) sv(2) have b2: "c_str (name_field_of ''tap0'') = ''tap0''"
    by (rule trans)
  from l s a b1 b2 show ?thesis
    by blast
qed

text \<open>
  Claim C5. For every device descriptor and requested name, \<open>set_tap_if\<close> makes exactly
  one call, a \<^verbatim>\<open>TUNSETIFF\<close> request on that descriptor, whose flags are exactly
  \<open>IFF_TAP OR IFF_NO_PI\<close> (nothing else in the union is set) and whose name field is the
  requested name as it fits the field (empty when the name is empty); it returns the
  \<^verbatim>\<open>errno\<close> of that call when the call fails, and 0 otherwise.
\<close>

theorem set_tap_if_attach_request:
  fixes os :: "'k os"
  shows
    "\<exists>req r. issued w (snd (set_tap_if os w fd name)) = [(Ioctl_ifreq fd TUNSETIFF req, r)]
        \<and> ifr_flags req = IFF_TAP OR IFF_NO_PI
        \<and> ifr_ifru req = le16 (IFF_TAP OR IFF_NO_PI) @ replicate 22 0
        \<and> ifr_name req = name_field_of name
        \<and> c_str (ifr_name req) = take IFNAMSIZ (c_str name)
        \<and> fst (set_tap_if os w fd name) = (if ret r < 0 then err r else 0)"
proof -
  define q where "q = \<lparr>ifr_name = name_field_of name,
     ifr_ifru = store 0 (le16 (IFF_TAP OR IFF_NO_PI)) (replicate IFRU_SIZE 0)\<rparr>"
  define r where "r = fst (os (kern w) (Ioctl_ifreq fd TUNSETIFF q))"
  have run: "issued w (snd (set_tap_if os w fd name)) = [(Ioctl_ifreq fd TUNSETIFF q, r)]"
    "fst (set_tap_if os w fd name) = (if ret r < 0 then err r else 0)"
    by (simp_all add: set_tap_if_def sys_eqs set_ifr_flags_def strncpy_name_field q_def r_def)
  have flags: "ifr_flags q = IFF_TAP OR IFF_NO_PI"
    using ifr_flags_set[of "IFF_TAP OR IFF_NO_PI"
        "\<lparr>ifr_name = name_field_of name, ifr_ifru = replicate IFRU_SIZE 0\<rparr>"]
    by (simp add: q_def set_ifr_flags_def)
  have bytes: "ifr_ifru q = le16 (IFF_TAP OR IFF_NO_PI) @ replicate 22 0"
    by (simp add: q_def store_def length_le16 IFRU_SIZE_def)
  have name: "ifr_name q = name_field_of name" "c_str (ifr_name q) = take IFNAMSIZ (c_str name)"
    by (simp_all add: q_def c_str_name_field)
  from run flags bytes name show ?thesis
    by blast
qed

text \<open>
  Claim C6. For every control socket, name and 32-bit word \<open>W\<close>, \<open>setipaddr_tap\<close> and
  \<open>setnetmask_tap\<close> make exactly one request; its union holds the family tag
  \<open>AF_INET\<close>, a zero port, the four bytes of \<open>W\<close> as they lie in memory, and zeros: the
  address field reads back as \<open>W\<close>, and no other configuration field is set.
\<close>

theorem address_request_bytes:
  fixes os :: "'k os"
  shows
    "(\<exists>req r. issued w (snd (setipaddr_tap os w skfd name W))
                 = [(Ioctl_ifreq skfd SIOCSIFADDR req, r)]
        \<and> ifr_ifru req = le16 AF_INET @ [0, 0] @ le32 W @ replicate 16 0
        \<and> sin_family req = AF_INET \<and> sin_addr req = W \<and> load 4 4 (ifr_ifru req) = le32 W) \<and>
     (\<exists>req r. issued w (snd (setnetmask_tap os w skfd name W))
                 = [(Ioctl_ifreq skfd SIOCSIFNETMASK req, r)]
        \<and> ifr_ifru req = le16 AF_INET @ [0, 0] @ le32 W @ replicate 16 0
        \<and> sin_family req = AF_INET \<and> sin_addr req = W \<and> load 4 4 (ifr_ifru req) = le32 W)"
proof -
  define q where "q = \<lparr>ifr_name = strncpy (replicate IFNAMSIZ NUL) name IFNAMSIZ,
     ifr_ifru = store 4 (le32 W) (store 0 (le16 AF_INET) (replicate IFRU_SIZE 0))\<rparr>"
  have bytes: "ifr_ifru q = le16 AF_INET @ [0, 0] @ le32 W @ replicate 16 0"
    by (simp add: q_def sockaddr_in_bytes)
  have fam: "sin_family q = AF_INET"
    unfolding sin_family_def bytes by (rule sin_family_bytes)
  have ld: "load 4 4 (ifr_ifru q) = le32 W"
    unfolding bytes by (simp add: load_def length_le16 length_le32)
  have addr: "sin_addr q = W"
    unfolding sin_addr_def ld by (rule of_le_le32)
  have i1: "issued w (snd (setipaddr_tap os w skfd name W))
      = [(Ioctl_ifreq skfd SIOCSIFADDR q, fst (os (kern w) (Ioctl_ifreq skfd SIOCSIFADDR q)))]"
    by (simp add: setipaddr_tap_def sys_eqs set_sin_family_def set_sin_addr_def q_def)
  have i2: "issued w (snd (setnetmask_tap os w skfd name W))
      = [(Ioctl_ifreq skfd SIOCSIFNETMASK q, fst (os (kern w) (Ioctl_ifreq skfd SIOCSIFNETMASK q)))]"
    by (simp add: setnetmask_tap_def sys_eqs set_sin_family_def set_sin_addr_def q_def)
  from i1 i2 bytes fam ld addr show ?thesis
    by blast
qed



text \<open>
  Claim C8. \<open>set_tap\<close> called with a null pointer returns \<open>-1\<close> and makes no call to the
  operating system: the state, with its log of calls and its \<^verbatim>\<open>errno\<close>, is as before.
  The value \<open>-1\<close> is the module's own: it is returned whatever \<^verbatim>\<open>errno\<close> holds, and
  it does not follow the errno convention. It is the only such path: \<open>set_tap\<close> with a
  pointer to an integer, and every other operation, follow the convention.
\<close>

theorem set_tap_null_pointer:
  fixes os :: "'k os"
  shows
    "set_tap os w None = (- 1, None, w) \<and>
     issued w (snd (snd (set_tap os w None))) = [] \<and>
     \<not> errno_convention (issued w (snd (snd (set_tap os w None)))) (fst (set_tap os w None)) \<and>
     errno_convention (issued w (snd (snd (set_tap os w (Some v)))))
       (fst (set_tap os w (Some v))) \<and>
     errno_convention (issued w (snd (setpersist_tap os w fd))) (fst (setpersist_tap os w fd)) \<and>
     errno_convention (issued w (snd (snd (getmtu_tap os w skfd name mtu))))
       (fst (getmtu_tap os w skfd name mtu)) \<and>
     errno_convention (issued w (snd (setipaddr_tap os w skfd name a)))
       (fst (setipaddr_tap os w skfd name a)) \<and>
     errno_convention (issued w (snd (snd (getipaddr_tap os w skfd name a0))))
       (fst (getipaddr_tap os w skfd name a0)) \<and>
     errno_convention (issued w (snd (setnetmask_tap os w skfd name a)))
       (fst (setnetmask_tap os w skfd name a)) \<and>
     errno_convention (issued w (snd (setflags_tap os w skfd name B en)))
       (fst (setflags_tap os w skfd name B en)) \<and>
     errno_convention (issued w (snd (setup_tap os w skfd name)))
       (fst (setup_tap os w skfd name)) \<and>
     errno_convention (issued w (snd (snd (gethwaddr_tap os w fd ha))))
       (fst (gethwaddr_tap os w fd ha)) \<and>
     errno_convention (issued w (snd (snd (getname_tap os w fd buf))))
       (fst (getname_tap os w fd buf)) \<and>
     errno_convention (issued w (snd (set_tap_if os w fd name)))
       (fst (set_tap_if os w fd name))"
  by (simp add: setpersist_tap_def getmtu_tap_def setipaddr_tap_def getipaddr_tap_def
      setnetmask_tap_def setflags_tap_def setup_tap_def gethwaddr_tap_def getname_tap_def
      set_tap_def set_tap_if_def sys_eqs errno_convention_def)

text \<open>
  Claim C9. For each of \<open>getmtu_tap\<close>, \<open>getipaddr_tap\<close>, \<open>gethwaddr_tap\<close> and
  \<open>getname_tap\<close>: when the call to the operating system fails, leaving \<^verbatim>\<open>errno\<close> \<open>e\<close>,
  the operation returns \<open>e\<close> (nonzero as soon as \<open>e\<close> is) and the caller's output
  object is exactly as it was passed in.
\<close>

theorem get_operations_keep_output_on_failure:
  fixes os :: "'k os"
  shows
    "(case getmtu_tap os w skfd name mtu of (rc, mtu', w') \<Rightarrow>
        \<forall>e. os_error (issued w w') = Some e \<longrightarrow> rc = e \<and> (e \<noteq> 0 \<longrightarrow> rc \<noteq> 0) \<and> mtu' = mtu) \<and>
     (case getipaddr_tap os w skfd name ipaddr of (rc, ipaddr', w') \<Rightarrow>
        \<forall>e. os_error (issued w w') = Some e \<longrightarrow>
            rc = e \<and> (e \<noteq> 0 \<longrightarrow> rc \<noteq> 0) \<and> ipaddr' = ipaddr) \<and>
     (case gethwaddr_tap os w tapfd ha of (rc, ha', w') \<Rightarrow>
        \<forall>e. os_error (issued w w') = Some e \<longrightarrow> rc = e \<and> (e \<noteq> 0 \<longrightarrow> rc \<noteq> 0) \<and> ha' = ha) \<and>
     (case getname_tap os w tapfd buf of (rc, buf', w') \<Rightarrow>
        \<forall>e. os_error (issued w w') = Some e \<longrightarrow> rc = e \<and> (e \<noteq> 0 \<longrightarrow> rc \<noteq> 0) \<and> buf' = buf)"
  by (simp add: getmtu_tap_def getipaddr_tap_def gethwaddr_tap_def getname_tap_def sys_eqs
      os_error_def)

text \<open>
  Against an operating system that fails every call with \<^verbatim>\<open>errno\<close> 19 after writing
  over the request record, each operation returns 19 and hands back what it was given.
\<close>

theorem get_operations_keep_output_on_failure_witness:
  "getmtu_tap (const_os scribble) (boot () no_ifreq) 3 ''tap0'' 1500
     = (19, 1500, snd (snd (getmtu_tap (const_os scribble) (boot () no_ifreq) 3 ''tap0'' 1500))) \<and>
   getipaddr_tap (const_os scribble) (boot () no_ifreq) 3 ''tap0'' 0x0100000A
     = (19, 0x0100000A,
        snd (snd (getipaddr_tap (const_os scribble) (boot () no_ifreq) 3 ''tap0'' 0x0100000A))) \<and>
   gethwaddr_tap (const_os scribble) (boot () no_ifreq) 5 [1, 2, 3, 4, 5, 6]
     = (19, [1, 2, 3, 4, 5, 6],
        snd (snd (gethwaddr_tap (const_os scribble) (boot () no_ifreq) 5 [1, 2, 3, 4, 5, 6]))) \<and>
   getname_tap (const_os scribble) (boot () no_ifreq) 5 ''unchanged''
     = (19, ''unchanged'',
        snd (snd (getname_tap (const_os scribble) (boot () no_ifreq) 5 ''unchanged'')))"
proof -
  have e: "os_error (issued (boot () no_ifreq)
              (snd (snd (getmtu_tap (const_os scribble) (boot () no_ifreq) 3 ''tap0'' 1500)))) = Some 19"
    "os_error (issued (boot () no_ifreq)
              (snd (snd (getipaddr_tap (const_os scribble) (boot () no_ifreq) 3 ''tap0'' 0x0100000A)))) = Some 19"
    "os_error (issued (boot () no_ifreq)
              (snd (snd (gethwaddr_tap (const_os scribble) (boot () no_ifreq) 5 [1, 2, 3, 4, 5, 6])))) = Some 19"
    "os_error (issued (boot () no_ifreq)
              (snd (snd (getname_tap (const_os scribble) (boot () no_ifreq) 5 ''unchanged'')))) = Some 19"
    by (simp_all add: getmtu_tap_def getipaddr_tap_def gethwaddr_tap_def getname_tap_def sys_eqs
        os_error_def const_os_def scribble_def)
  from get_operations_keep_output_on_failure[where os = "const_os scribble"
      and w = "boot () no_ifreq" and skfd = 3 and name = "''tap0''" and mtu = 1500
      and ipaddr = "0x0100000A" and tapfd = 5 and ha = "[1, 2, 3, 4, 5, 6]"
      and buf = "''unchanged''"] e
  show ?thesis
    by (auto simp add: case_prod_unfold prod_eq_iff)
qed

text \<open>
  Claim C10. Every operation clears its local request record before filling it, so the
  request it hands to the operating system does not depend on what the record's memory
  held before, nor on anything else in the state: two calls with equal arguments, in any
  two states and against any two operating systems, make the same first request (the same
  bytes throughout). The second request of \<open>setflags_tap\<close> is built from the answer to
  the first; with the same operating system in the same state it is the same as well,
  whatever the memory held.
\<close>

theorem requests_independent_of_residue:
  fixes os1 :: "'k os" and os2 :: "'j os"
  shows
    "map fst (issued w1 (snd (setpersist_tap os1 w1 fd))) =
       map fst (issued w2 (snd (setpersist_tap os2 w2 fd))) \<and>
     map fst (issued w1 (snd (snd (getmtu_tap os1 w1 skfd name mtu1)))) =
       map fst (issued w2 (snd (snd (getmtu_tap os2 w2 skfd name mtu2)))) \<and>
     map fst (issued w1 (snd (setipaddr_tap os1 w1 skfd name a))) =
       map fst (issued w2 (snd (setipaddr_tap os2 w2 skfd name a))) \<and>
     map fst (issued w1 (snd (snd (getipaddr_tap os1 w1 skfd name a1)))) =
       map fst (issued w2 (snd (snd (getipaddr_tap os2 w2 skfd name a2)))) \<and>
     map fst (issued w1 (snd (setnetmask_tap os1 w1 skfd name a))) =
       map fst (issued w2 (snd (setnetmask_tap os2 w2 skfd name a))) \<and>
     take 1 (map fst (issued w1 (snd (setflags_tap os1 w1 skfd name B en)))) =
       take 1 (map fst (issued w2 (snd (setflags_tap os2 w2 skfd name B en)))) \<and>
     issued (w1\<lparr>stack := junk\<rparr>) (snd (setflags_tap os1 (w1\<lparr>stack := junk\<rparr>) skfd name B en)) =
       issued w1 (snd (setflags_tap os1 w1 skfd name B en)) \<and>
     take 1 (map fst (issued w1 (snd (setup_tap os1 w1 skfd name)))) =
       take 1 (map fst (issued w2 (snd (setup_tap os2 w2 skfd name)))) \<and>
     issued (w1\<lparr>stack := junk\<rparr>) (snd (setup_tap os1 (w1\<lparr>stack := junk\<rparr>) skfd name)) =
       issued w1 (snd (setup_tap os1 w1 skfd name)) \<and>
     map fst (issued w1 (snd (snd (gethwaddr_tap os1 w1 fd ha1)))) =
       map fst (issued w2 (snd (snd (gethwaddr_tap os2 w2 fd ha2)))) \<and>
     map fst (issued w1 (snd (snd (getname_tap os1 w1 fd n1)))) =
       map fst (issued w2 (snd (snd (getname_tap os2 w2 fd n2)))) \<and>
     map fst (issued w1 (snd (set_tap_if os1 w1 fd name))) =
       map fst (issued w2 (snd (set_tap_if os2 w2 fd name))) \<and>
     map fst (issued w1 (snd (snd (set_tap os1 w1 (Some v1))))) =
       map fst (issued w2 (snd (snd (set_tap os2 w2 (Some v2))))) \<and>
     map fst (issued w1 (snd (snd (gethwaddr_tap os1 w1 fd ha1)))) =
       [Ioctl_ifreq fd SIOCGIFHWADDR
          \<lparr>ifr_name = replicate IFNAMSIZ NUL, ifr_ifru = replicate IFRU_SIZE 0\<rparr>] \<and>
     map fst (issued w1 (snd (snd (getmtu_tap os1 w1 skfd name mtu1)))) =
       [Ioctl_ifreq skfd SIOCGIFMTU
          \<lparr>ifr_name = name_field_of name, ifr_ifru = replicate IFRU_SIZE 0\<rparr>]"
  by (simp add: setpersist_tap_def getmtu_tap_def setipaddr_tap_def getipaddr_tap_def
      setnetmask_tap_def setflags_tap_def setup_tap_def gethwaddr_tap_def getname_tap_def
      set_tap_if_def set_tap_def sys_eqs set_sin_family_def set_sin_addr_def set_ifr_flags_def
      issued_def strncpy_name_field)

end
